theory Spec2Isabelle
  imports Main "HOL-Library.Sublist"
begin

section \<open>Data model\<close>

text \<open>
  \<open>NetworkFees\<close> is the tagged union of the two fee markets. The source tells the
  variants apart with \<open>"maxFeePerGas" in fees\<close> and \<open>"gasPrice" in fees\<close>; here that is
  a case distinction on the constructor. Fee amounts are JavaScript \<open>bigint\<close>s decoded
  from the node's hexadecimal quantities, hence unbounded and never negative: \<open>nat\<close>.
  On them the \<open>bigint\<close> division \<open>/\<close> is \<open>div\<close>.
\<close>

datatype NetworkFees =
    Legacy (gasPrice: nat)
  | Eip1559 (maxFeePerGas: nat) (maxPriorityFeePerGas: nat)

record Transaction =
  tx_hash :: string
  tx_fees :: NetworkFees

text \<open>
  The fields of an \<open>OnchainInteraction\<close> that the send pipeline reads. Nonces,
  interaction ids and block numbers are JavaScript \<open>number\<close>s holding integers:
  \<open>int\<close>. An absent (\<open>undefined\<close>) field is \<open>None\<close>.
\<close>

record OnchainInteraction =
  oi_id :: int
  oi_to :: "string option"
  oi_data :: string
  oi_value :: nat
  oi_nonce :: "int option"
  oi_transactions :: "Transaction list"

text \<open>
  \<open>TransactionParams\<close>, also the shape of \<open>estimateGasPrams\<close> and of
  \<open>paramsWithoutFees\<close>: the latter has no \<open>fees\<close> field, which is \<open>p_fees = None\<close>.
\<close>

record TransactionParams =
  p_to :: "string option"
  p_from :: string
  p_data :: string
  p_value :: nat
  p_nonce :: int
  p_fees :: "NetworkFees option"
  p_gasLimit :: "nat option"

datatype block_tag = Latest | Pending | BlockNumber int

text \<open>The three journal message types this code builds, with their fields in source order:
  \<open>futureId\<close>, \<open>networkInteractionId\<close> and, for the send intent, \<open>nonce\<close>.\<close>

datatype journal_message =
    ONCHAIN_INTERACTION_REPLACED_BY_USER string int
  | ONCHAIN_INTERACTION_DROPPED string int
  | TRANSACTION_PREPARE_SEND string int int

subsection \<open>Errors\<close>

text \<open>
  What a collaborator (the JSON-RPC client, the nonce manager, the journal, the decoding
  callback) may throw: an \<open>Error\<close> instance with its message, or any other value.
\<close>

datatype thrown = JsError string | NonError

text \<open>
  What the functions of this development raise: the \<open>IgnitionError\<close>s of
  \<open>ERRORS.EXECUTION\<close> with their parameters in source order, a failed
  \<open>assertIgnitionInvariant\<close> with its description, the internal error of the
  \<open>IgnitionError\<close> constructor with the name of the offending template variable, or a
  collaborator's exception that is not caught and so propagates unchanged.
\<close>

datatype exn =
    WAITING_FOR_CONFIRMATIONS string int
  | WAITING_FOR_NONCE string int int
  | INSUFFICIENT_FUNDS_FOR_TRANSFER string string
  | INSUFFICIENT_FUNDS_FOR_DEPLOY string
  | GAS_ESTIMATION_FAILED string
  | TEMPLATE_VALUE_CONTAINS_VARIABLE_TAG string
  | ASSERTION_ERROR string
  | Rethrown thrown

subsection \<open>Collaborators\<close>

text \<open>
  The JSON-RPC client as the node's answers: each method maps its arguments to the value
  it resolves to (\<open>Inr\<close>) or the exception it rejects with (\<open>Inl\<close>). Within one run of
  either function below no request is issued twice with the same arguments, so a function
  of the arguments describes every possible run. \<open>getLatestBlock\<close> gives the block's
  \<open>number\<close>, the only field read. The raw result of \<open>call\<close> and the transaction returned
  by \<open>getTransaction\<close> are opaque to this code: type parameters.
\<close>

record ('raw, 'tx) JsonRpcClient =
  getLatestBlock :: "thrown + int"
  getTransactionCount :: "string \<Rightarrow> block_tag \<Rightarrow> thrown + int"
  getTransaction :: "string \<Rightarrow> thrown + 'tx option"
  call :: "TransactionParams \<Rightarrow> block_tag \<Rightarrow> thrown + 'raw"
  estimateGas :: "TransactionParams \<Rightarrow> thrown + nat"
  getNetworkFees :: "thrown + NetworkFees"
  sendTransaction :: "TransactionParams \<Rightarrow> thrown + string"

text \<open>
  Every awaited call to a collaborator is an effect. The send pipeline threads the list of
  effects performed so far, oldest first, so that the order of the journal write and of
  the broadcast can be stated.
\<close>

datatype 'raw effect =
    GetNextNonce string
  | GetNetworkFees
  | EstimateGas TransactionParams
  | Call TransactionParams block_tag
  | DecodeSimulationResult 'raw
  | RecordToJournal journal_message
  | SendTransaction TransactionParams

type_synonym ('raw, 'a) io = "'raw effect list \<Rightarrow> (exn + 'a) \<times> 'raw effect list"

definition io_return :: "'a \<Rightarrow> ('raw, 'a) io" where
  "io_return v = (\<lambda>tr. (Inr v, tr))"

definition io_throw :: "exn \<Rightarrow> ('raw, 'a) io" where
  "io_throw e = (\<lambda>tr. (Inl e, tr))"

definition io_bind :: "('raw, 'a) io \<Rightarrow> ('a \<Rightarrow> ('raw, 'b) io) \<Rightarrow> ('raw, 'b) io" where
  "io_bind m k = (\<lambda>tr. case m tr of (Inl e, tr') \<Rightarrow> (Inl e, tr') | (Inr v, tr') \<Rightarrow> k v tr')"

text \<open>\<open>await\<close> of a call outside any \<open>try\<close>: the effect is logged, a rejection propagates.\<close>

definition io_await :: "'raw effect \<Rightarrow> thrown + 'a \<Rightarrow> ('raw, 'a) io" where
  "io_await eff answer =
     (\<lambda>tr. (case answer of Inl t \<Rightarrow> Inl (Rethrown t) | Inr v \<Rightarrow> Inr v, tr @ [eff]))"

text \<open>\<open>try { x = await call } catch (error) { handler }\<close> followed by the rest of the
  function: the handler sees the rejection, the rest sees the value.\<close>

definition io_try_await ::
  "'raw effect \<Rightarrow> thrown + 'a \<Rightarrow> (thrown \<Rightarrow> ('raw, 'b) io) \<Rightarrow> ('a \<Rightarrow> ('raw, 'b) io) \<Rightarrow> ('raw, 'b) io" where
  "io_try_await eff answer handler rest =
     (\<lambda>tr. case answer of Inl t \<Rightarrow> handler t (tr @ [eff]) | Inr v \<Rightarrow> rest v (tr @ [eff]))"

text \<open>
  Modelled from the spec: \<open>assertIgnitionInvariant\<close> lives in \<open>utils/assertions\<close>, which is
  not among the sources. The specification calls its failure in the fee policy a hard
  error; its TypeScript use for narrowing (\<open>asserts invariant\<close>) needs it to throw exactly
  when the invariant is false.
\<close>

definition assertIgnitionInvariant :: "bool \<Rightarrow> string \<Rightarrow> ('raw, unit) io" where
  "assertIgnitionInvariant invariant description =
     (if invariant then io_return () else io_throw (ASSERTION_ERROR description))"

section \<open>Fee policy\<close>

definition getNextTransactionFees ::
  "('raw, 'tx) JsonRpcClient \<Rightarrow> OnchainInteraction \<Rightarrow> ('raw, NetworkFees) io" where
  "getNextTransactionFees client onchainInteraction =
     io_bind (io_await GetNetworkFees (getNetworkFees client)) (\<lambda>recommendedFees.
       if length (oi_transactions onchainInteraction) = 0 then io_return recommendedFees
       else
         let transactionWithHighestFees =
               oi_transactions onchainInteraction ! (length (oi_transactions onchainInteraction) - 1)
         in
         case recommendedFees of
           Eip1559 recommendedMaxFee recommendedMaxPriorityFee \<Rightarrow>
             let previousFees =
                   (case tx_fees transactionWithHighestFees of
                      Legacy prevGasPrice \<Rightarrow> Eip1559 prevGasPrice prevGasPrice
                    | Eip1559 prevMaxFee prevMaxPriorityFee \<Rightarrow> Eip1559 prevMaxFee prevMaxPriorityFee);
                 bumpedMaxFeePerGas = (maxFeePerGas previousFees * 110) div 100;
                 bumpedMaxPriorityFeePerGas = (maxPriorityFeePerGas previousFees * 110) div 100;
                 maxFeePerGas' =
                   (if recommendedMaxFee > bumpedMaxFeePerGas
                    then recommendedMaxFee else bumpedMaxFeePerGas);
                 maxPriorityFeePerGas' =
                   (if recommendedMaxPriorityFee > bumpedMaxPriorityFeePerGas
                    then recommendedMaxPriorityFee else bumpedMaxPriorityFeePerGas)
             in io_return (Eip1559 maxFeePerGas' maxPriorityFeePerGas')
         | Legacy recommendedGasPrice \<Rightarrow>
             io_bind
               (assertIgnitionInvariant
                  (case tx_fees transactionWithHighestFees of Legacy _ \<Rightarrow> True | Eip1559 _ _ \<Rightarrow> False)
                  ''EIP-1559 transaction was already sent but the currently recommended fees are not EIP-1559'')
               (\<lambda>_.
                  let bumpedGasPrice = (gasPrice (tx_fees transactionWithHighestFees) * 110) div 100;
                      maxGasPrice =
                        (if recommendedGasPrice > bumpedGasPrice
                         then recommendedGasPrice else bumpedGasPrice)
                  in io_return (Legacy maxGasPrice)))"

section \<open>Send pipeline\<close>

text \<open>
  The variable tag of an error message template, \<open>/%([a-zA-Z][a-zA-Z0-9]*)?%/\<close>: a
  percent sign, optionally a letter followed by letters and digits, and a percent sign.
  \<open>tag_name_rest\<close> reads \<open>[a-zA-Z0-9]*%\<close> and \<open>tag_after_percent\<close> reads
  \<open>([a-zA-Z][a-zA-Z0-9]*)?%\<close> at the head of a string; \<open>has_variable_tag\<close> looks for a
  match anywhere.
\<close>

definition is_letter :: "char \<Rightarrow> bool" where
  "is_letter ch = (ch \<in> set ''abcdefghijklmnopqrstuvwxyzABCDEFGHIJKLMNOPQRSTUVWXYZ'')"

definition is_digit :: "char \<Rightarrow> bool" where
  "is_digit ch = (ch \<in> set ''0123456789'')"

fun tag_name_rest :: "string \<Rightarrow> bool" where
  "tag_name_rest [] = False"
| "tag_name_rest (ch # cs) =
     (ch = CHR ''%'' \<or> ((is_letter ch \<or> is_digit ch) \<and> tag_name_rest cs))"

fun tag_after_percent :: "string \<Rightarrow> bool" where
  "tag_after_percent [] = False"
| "tag_after_percent (ch # cs) = (ch = CHR ''%'' \<or> (is_letter ch \<and> tag_name_rest cs))"

fun has_variable_tag :: "string \<Rightarrow> bool" where
  "has_variable_tag [] = False"
| "has_variable_tag (ch # cs) = ((ch = CHR ''%'' \<and> tag_after_percent cs) \<or> has_variable_tag cs)"

text \<open>
  Modelled from the spec: the constructor of \<open>IgnitionError\<close> lives in \<open>errors\<close>, which
  is not among the sources, and the specification is silent on it. It fills the message
  template of the error with the given values and refuses a value that contains a variable
  tag: it then throws the internal error \<open>TEMPLATE_VALUE_CONTAINS_VARIABLE_TAG\<close> with the
  name of the variable in place of the error asked for. Of the values this code passes,
  senders are account addresses and the others are decimal numbers, which hold no percent
  sign; only the node's message, the variable \<open>error\<close> of \<open>GAS_ESTIMATION_FAILED\<close>, is
  free text.
\<close>

definition new_GAS_ESTIMATION_FAILED :: "string \<Rightarrow> exn" where
  "new_GAS_ESTIMATION_FAILED message =
     (if has_variable_tag message then TEMPLATE_VALUE_CONTAINS_VARIABLE_TAG ''error''
      else GAS_ESTIMATION_FAILED message)"

text \<open>
  \<open>RegExp.prototype.test\<close> for the two patterns of the source. Both are plain text
  without metacharacters or flags, so the test is containment as a contiguous substring.
\<close>

definition regex_test :: "string \<Rightarrow> string \<Rightarrow> bool" where
  "regex_test pattern s = sublist pattern s"

text \<open>\<open>BigInt.prototype.toString\<close> on a non-negative value: decimal digits, no leading zero.\<close>

definition digit_char :: "nat \<Rightarrow> char" where
  "digit_char d = ''0123456789'' ! d"

function bigint_toString :: "nat \<Rightarrow> string" where
  "bigint_toString n =
     (if n < 10 then [digit_char n] else bigint_toString (n div 10) @ [digit_char (n mod 10)])"
  by pat_completeness auto
termination
  by (relation "measure id") auto

declare bigint_toString.simps [simp del]

text \<open>
  What \<open>sendTransactionForOnchainInteraction\<close> resolves to: the decoded simulation error
  handed back by the callback, or the record \<open>{type: TRANSACTION_SENT_TYPE, nonce,
  transaction: {hash, fees}}\<close>.
\<close>

datatype 'sim send_result =
    Decoded 'sim
  | TRANSACTION_SENT int Transaction

text \<open>
  The nonce manager is its \<open>getNextNonce\<close> method, the deployment loader its
  \<open>recordToJournal\<close> method, both as the answers they give. In the \<open>catch\<close> block the
  assertion \<open>error instanceof Error\<close> comes first, as in the source; the \<open>NonError\<close>
  branch of the case distinction after it only makes the distinction total.
\<close>

definition sendTransactionForOnchainInteraction ::
  "('raw, 'tx) JsonRpcClient \<Rightarrow> string \<Rightarrow> OnchainInteraction \<Rightarrow> (string \<Rightarrow> thrown + int) \<Rightarrow>
   ('raw \<Rightarrow> thrown + 'sim option) \<Rightarrow> (journal_message \<Rightarrow> thrown + unit) \<Rightarrow> string \<Rightarrow>
   ('raw, 'sim send_result) io" where
  "sendTransactionForOnchainInteraction client sender onchainInteraction getNextNonce
       decodeSimulationResult recordToJournal futureId =
     io_bind
       (case oi_nonce onchainInteraction of
          Some n \<Rightarrow> io_return n
        | None \<Rightarrow> io_await (GetNextNonce sender) (getNextNonce sender)) (\<lambda>nonce.
     io_bind (getNextTransactionFees client onchainInteraction) (\<lambda>fees.
     let estimateGasPrams =
           \<lparr> p_to = oi_to onchainInteraction, p_from = sender,
             p_data = oi_data onchainInteraction, p_value = oi_value onchainInteraction,
             p_nonce = nonce, p_fees = Some fees, p_gasLimit = None \<rparr>
     in
     io_try_await (EstimateGas estimateGasPrams) (estimateGas client estimateGasPrams)
       (\<lambda>error.
          let paramsWithoutFees = estimateGasPrams \<lparr> p_fees := None \<rparr> in
          io_bind (io_await (Call paramsWithoutFees Pending) (call client paramsWithoutFees Pending))
            (\<lambda>failedEstimateGasSimulationResult.
          io_bind (io_await (DecodeSimulationResult failedEstimateGasSimulationResult)
                     (decodeSimulationResult failedEstimateGasSimulationResult)) (\<lambda>decoded.
          case decoded of
            Some d \<Rightarrow> io_return (Decoded d)
          | None \<Rightarrow>
              io_bind
                (assertIgnitionInvariant (case error of JsError _ \<Rightarrow> True | NonError \<Rightarrow> False)
                   ''Unexpected error type while resolving failed gas estimation'')
                (\<lambda>_.
                   case error of
                     JsError message \<Rightarrow>
                       if regex_test ''insufficient funds for transfer'' message then
                         io_throw (INSUFFICIENT_FUNDS_FOR_TRANSFER sender
                                     (bigint_toString (p_value estimateGasPrams)))
                       else if regex_test ''contract creation code storage out of gas'' message then
                         io_throw (INSUFFICIENT_FUNDS_FOR_DEPLOY sender)
                       else io_throw (new_GAS_ESTIMATION_FAILED message)
                   | NonError \<Rightarrow>
                       io_throw (ASSERTION_ERROR
                         ''Unexpected error type while resolving failed gas estimation'')))))
       (\<lambda>gasLimit.
          let transactionParams = estimateGasPrams \<lparr> p_gasLimit := Some gasLimit \<rparr> in
          io_bind (io_await (Call transactionParams Pending) (call client transactionParams Pending))
            (\<lambda>simulationResult.
          io_bind (io_await (DecodeSimulationResult simulationResult)
                     (decodeSimulationResult simulationResult)) (\<lambda>decodedSimulationResult.
          case decodedSimulationResult of
            Some d \<Rightarrow> io_return (Decoded d)
          | None \<Rightarrow>
              io_bind
                (io_await
                   (RecordToJournal
                      (TRANSACTION_PREPARE_SEND futureId (oi_id onchainInteraction)
                         (p_nonce transactionParams)))
                   (recordToJournal
                      (TRANSACTION_PREPARE_SEND futureId (oi_id onchainInteraction)
                         (p_nonce transactionParams)))) (\<lambda>_.
              io_bind (io_await (SendTransaction transactionParams)
                         (sendTransaction client transactionParams)) (\<lambda>txHash.
              io_return (TRANSACTION_SENT nonce \<lparr> tx_hash = txHash, tx_fees = fees \<rparr>))))))))"

text \<open>The effects that change the journal or the network; every other one is a read.\<close>

fun is_write :: "'raw effect \<Rightarrow> bool" where
  "is_write (RecordToJournal _) = True"
| "is_write (SendTransaction _) = True"
| "is_write _ = False"

section \<open>Nonce synchronisation\<close>

text \<open>
  One element of a sender's list in \<open>pendingTransactionsPerSender\<close>;
  \<open>transactions\<close> holds the hashes.
\<close>

record PendingIgnitionTransaction =
  nonce :: int
  transactions :: "string list"
  executionStateId :: string
  networkInteractionId :: int

text \<open>
  \<open>Promise.all\<close> over requests that are all issued: the list of values when every one
  resolves, otherwise a rejection, taken here from the first rejected request in list order.
\<close>

fun Promise_all :: "(thrown + 'a) list \<Rightarrow> thrown + 'a list" where
  "Promise_all [] = Inr []"
| "Promise_all (r # rs) =
     (case r of
        Inl t \<Rightarrow> Inl t
      | Inr v \<Rightarrow> (case Promise_all rs of Inl t \<Rightarrow> Inl t | Inr vs \<Rightarrow> Inr (v # vs)))"

text \<open>
  \<open>Math.max(...xs)\<close> on integers. With no argument JavaScript returns \<open>-Infinity\<close>, which
  is \<open>None\<close> here; \<open>-Infinity + 1\<close> is \<open>-Infinity\<close> again, below every count.
\<close>

fun Math_max :: "int list \<Rightarrow> int option" where
  "Math_max [] = None"
| "Math_max (x # xs) = (case Math_max xs of None \<Rightarrow> Some x | Some m \<Rightarrow> Some (max x m))"

text \<open>
  The inner loop of \<open>getNonceSyncMessages\<close> over one sender's pending transactions, from
  the entry at the head of the list on. \<open>messages\<close> is the array pushed to, shared by the
  whole pass; \<open>continue\<close> is the recursive call on the remaining entries.
\<close>

fun processPendingTransactions ::
  "('raw, 'tx) JsonRpcClient \<Rightarrow> string \<Rightarrow> int \<Rightarrow> int option \<Rightarrow> int \<Rightarrow> int \<Rightarrow>
   PendingIgnitionTransaction list \<Rightarrow> journal_message list \<Rightarrow> exn + journal_message list" where
  "processPendingTransactions client sender requiredConfirmations safeConfirmationsCount
       pendingCount latestCount [] messages = Inr messages"
| "processPendingTransactions client sender requiredConfirmations safeConfirmationsCount
       pendingCount latestCount (t # rest) messages =
     (case Promise_all (map (getTransaction client) (transactions t)) of
        Inl e \<Rightarrow> Inl (Rethrown e)
      | Inr fetchedTransactions \<Rightarrow>
          if list_ex (\<lambda>tx. tx \<noteq> None) fetchedTransactions then
            processPendingTransactions client sender requiredConfirmations
              safeConfirmationsCount pendingCount latestCount rest messages
          else if latestCount > nonce t then
            (let hasEnoughConfirmations =
                   (case safeConfirmationsCount of None \<Rightarrow> False | Some safe \<Rightarrow> safe \<ge> nonce t)
             in
             if \<not> hasEnoughConfirmations then
               Inl (WAITING_FOR_NONCE sender (nonce t) requiredConfirmations)
             else
               processPendingTransactions client sender requiredConfirmations
                 safeConfirmationsCount pendingCount latestCount rest
                 (messages @
                  [ONCHAIN_INTERACTION_REPLACED_BY_USER (executionStateId t) (networkInteractionId t)]))
          else if pendingCount > nonce t then
            Inl (WAITING_FOR_NONCE sender (nonce t) requiredConfirmations)
          else
            processPendingTransactions client sender requiredConfirmations
              safeConfirmationsCount pendingCount latestCount rest
              (messages @
               [ONCHAIN_INTERACTION_DROPPED (executionStateId t) (networkInteractionId t)]))"

text \<open>
  \<open>block.number - requiredConfirmations + 1\<close> when it is not negative, else \<open>undefined\<close>.
\<close>

definition confirmedBlockNumber :: "int \<Rightarrow> int \<Rightarrow> int option" where
  "confirmedBlockNumber blockNumber requiredConfirmations =
     (if blockNumber - requiredConfirmations + 1 \<ge> 0
      then Some (blockNumber - requiredConfirmations + 1) else None)"

definition hasOnchainUnconfirmedPendingTransactions :: "int option \<Rightarrow> int \<Rightarrow> bool" where
  "hasOnchainUnconfirmedPendingTransactions safeConfirmationsCount pendingCount =
     (case safeConfirmationsCount of
        None \<Rightarrow> pendingCount > 0
      | Some safe \<Rightarrow> safe \<noteq> pendingCount)"

text \<open>
  One iteration of the outer loop: the three count queries, Case 0, the inner loop and
  Case 4. The result is the \<open>messages\<close> array after the iteration, or the exception that
  ends the pass.
\<close>

definition syncSender ::
  "('raw, 'tx) JsonRpcClient \<Rightarrow> int \<Rightarrow> int option \<Rightarrow> string \<Rightarrow>
   PendingIgnitionTransaction list \<Rightarrow> journal_message list \<Rightarrow> exn + journal_message list" where
  "syncSender client requiredConfirmations confirmedBlock sender pendingIgnitionTransactions messages =
     (case (case confirmedBlock of
              None \<Rightarrow> Inr None
            | Some b \<Rightarrow>
                (case getTransactionCount client sender (BlockNumber b) of
                   Inl e \<Rightarrow> Inl e | Inr c \<Rightarrow> Inr (Some c))) of
        Inl e \<Rightarrow> Inl (Rethrown e)
      | Inr safeConfirmationsCount \<Rightarrow>
     (case getTransactionCount client sender Pending of
        Inl e \<Rightarrow> Inl (Rethrown e)
      | Inr pendingCount \<Rightarrow>
     (case getTransactionCount client sender Latest of
        Inl e \<Rightarrow> Inl (Rethrown e)
      | Inr latestCount \<Rightarrow>
     if length pendingIgnitionTransactions = 0 \<and>
        hasOnchainUnconfirmedPendingTransactions safeConfirmationsCount pendingCount
     then Inl (WAITING_FOR_CONFIRMATIONS sender requiredConfirmations)
     else
     (case processPendingTransactions client sender requiredConfirmations safeConfirmationsCount
             pendingCount latestCount pendingIgnitionTransactions messages of
        Inl e \<Rightarrow> Inl e
      | Inr messages' \<Rightarrow>
          let highestPendingNonce = Math_max (map nonce pendingIgnitionTransactions) in
          if (case highestPendingNonce of None \<Rightarrow> True | Some h \<Rightarrow> h + 1 < pendingCount) \<and>
             hasOnchainUnconfirmedPendingTransactions safeConfirmationsCount pendingCount
          then Inl (WAITING_FOR_NONCE sender (pendingCount - 1) requiredConfirmations)
          else Inr messages'))))"

fun syncSenders ::
  "('raw, 'tx) JsonRpcClient \<Rightarrow> int \<Rightarrow> int option \<Rightarrow>
   (string \<times> PendingIgnitionTransaction list) list \<Rightarrow> journal_message list \<Rightarrow>
   exn + journal_message list" where
  "syncSenders client requiredConfirmations confirmedBlock [] messages = Inr messages"
| "syncSenders client requiredConfirmations confirmedBlock ((sender, pending) # rest) messages =
     (case syncSender client requiredConfirmations confirmedBlock sender pending messages of
        Inl e \<Rightarrow> Inl e
      | Inr messages' \<Rightarrow> syncSenders client requiredConfirmations confirmedBlock rest messages')"

text \<open>
  \<open>getNonceSyncMessages\<close> from the point where \<open>pendingTransactionsPerSender\<close> has been
  built; its \<open>Object.entries\<close>, in insertion order, are the association list. The helpers
  that build it from the deployment state and the module are not among the sources.
\<close>

definition getNonceSyncMessages ::
  "('raw, 'tx) JsonRpcClient \<Rightarrow> (string \<times> PendingIgnitionTransaction list) list \<Rightarrow> int \<Rightarrow>
   exn + journal_message list" where
  "getNonceSyncMessages jsonRpcClient pendingTransactionsPerSender requiredConfirmations =
     (case getLatestBlock jsonRpcClient of
        Inl e \<Rightarrow> Inl (Rethrown e)
      | Inr blockNumber \<Rightarrow>
          syncSenders jsonRpcClient requiredConfirmations
            (confirmedBlockNumber blockNumber requiredConfirmations)
            pendingTransactionsPerSender [])"

section \<open>Auxiliary notions for the properties\<close>

text \<open>The result of the fee policy; it does not depend on the effects performed before.\<close>

definition feesOutcome :: "('raw, 'tx) JsonRpcClient \<Rightarrow> OnchainInteraction \<Rightarrow> exn + NetworkFees" where
  "feesOutcome client onchainInteraction =
     fst (getNextTransactionFees client onchainInteraction ([] :: 'raw effect list))"

text \<open>The typed errors raised when gas estimation fails.\<close>

fun is_estimation_error :: "exn \<Rightarrow> bool" where
  "is_estimation_error (INSUFFICIENT_FUNDS_FOR_TRANSFER _ _) = True"
| "is_estimation_error (INSUFFICIENT_FUNDS_FOR_DEPLOY _) = True"
| "is_estimation_error (GAS_ESTIMATION_FAILED _) = True"
| "is_estimation_error _ = False"

text \<open>
  The fee invariant in the specification's words: every field of the new fees is at least
  1.10 times the corresponding field of the previous fees, written without fractions. A
  previous legacy gas price stands for both EIP-1559 fields, as in the fee policy; new
  legacy fees cannot be compared field by field with previous EIP-1559 fees.
\<close>

definition fees_at_least_110_percent :: "NetworkFees \<Rightarrow> NetworkFees \<Rightarrow> bool" where
  "fees_at_least_110_percent new prev =
     (case prev of
        Legacy pg \<Rightarrow>
          (case new of
             Legacy g \<Rightarrow> 110 * pg \<le> 100 * g
           | Eip1559 f p \<Rightarrow> 110 * pg \<le> 100 * f \<and> 110 * pg \<le> 100 * p)
      | Eip1559 pf pp \<Rightarrow>
          (case new of
             Legacy g \<Rightarrow> False
           | Eip1559 f p \<Rightarrow> 110 * pf \<le> 100 * f \<and> 110 * pp \<le> 100 * p))"

text \<open>The same comparison against the bumped value that the code computes, 110 percent
  rounded down by the integer division.\<close>

definition fees_at_least_bumped :: "NetworkFees \<Rightarrow> NetworkFees \<Rightarrow> bool" where
  "fees_at_least_bumped new prev =
     (case prev of
        Legacy pg \<Rightarrow>
          (case new of
             Legacy g \<Rightarrow> pg * 110 div 100 \<le> g
           | Eip1559 f p \<Rightarrow> pg * 110 div 100 \<le> f \<and> pg * 110 div 100 \<le> p)
      | Eip1559 pf pp \<Rightarrow>
          (case new of
             Legacy g \<Rightarrow> False
           | Eip1559 f p \<Rightarrow> pf * 110 div 100 \<le> f \<and> pp * 110 div 100 \<le> p))"

definition fees_not_lower :: "NetworkFees \<Rightarrow> NetworkFees \<Rightarrow> bool" where
  "fees_not_lower new prev =
     (case prev of
        Legacy pg \<Rightarrow>
          (case new of Legacy g \<Rightarrow> pg \<le> g | Eip1559 f p \<Rightarrow> pg \<le> f \<and> pg \<le> p)
      | Eip1559 pf pp \<Rightarrow>
          (case new of Legacy g \<Rightarrow> False | Eip1559 f p \<Rightarrow> pf \<le> f \<and> pp \<le> p))"

text \<open>Every transaction of a sequence but the first has fees at least the bumped fees of
  the one before it.\<close>

fun adjacent_fees_bumped :: "Transaction list \<Rightarrow> bool" where
  "adjacent_fees_bumped (a # b # rest) =
     (fees_at_least_bumped (tx_fees b) (tx_fees a) \<and> adjacent_fees_bumped (b # rest))"
| "adjacent_fees_bumped _ = True"

subsection \<open>Scenarios\<close>

text \<open>
  A node for the end-to-end scenarios of the specification: the latest block number, the
  transaction counts at a numbered block, at \<open>pending\<close> and at \<open>latest\<close> (the same for
  every sender), and the hashes it still knows. Gas estimation gives 21000, simulation an
  empty result, the recommended fees are \<open>{100, 2}\<close> and a broadcast returns \<open>0xaa\<close>.
\<close>

definition scenario_node ::
  "int \<Rightarrow> int \<Rightarrow> int \<Rightarrow> int \<Rightarrow> string list \<Rightarrow> (string, string) JsonRpcClient" where
  "scenario_node blockNumber safeCount pendingCount latestCount known =
     \<lparr> getLatestBlock = Inr blockNumber,
       getTransactionCount =
         (\<lambda>sender tag. case tag of
            Latest \<Rightarrow> Inr latestCount | Pending \<Rightarrow> Inr pendingCount | BlockNumber _ \<Rightarrow> Inr safeCount),
       getTransaction = (\<lambda>h. Inr (if h \<in> set known then Some h else None)),
       call = (\<lambda>params tag. Inr []),
       estimateGas = (\<lambda>params. Inr 21000),
       getNetworkFees = Inr (Eip1559 100 2),
       sendTransaction = (\<lambda>params. Inr ''0xaa'') \<rparr>"

text \<open>The interaction of scenario 1, not yet sent, and of scenario 2, sent once at nonce 5
  with fees \<open>{100, 2}\<close>.\<close>

definition scenario_first_send :: OnchainInteraction where
  "scenario_first_send =
     \<lparr> oi_id = 1, oi_to = Some ''0xC'', oi_data = ''0x'', oi_value = 1000,
       oi_nonce = None, oi_transactions = [] \<rparr>"

definition scenario_resend :: OnchainInteraction where
  "scenario_resend =
     scenario_first_send
       \<lparr> oi_nonce := Some 5,
         oi_transactions := [\<lparr> tx_hash = ''0xaa'', tx_fees = Eip1559 100 2 \<rparr>] \<rparr>"

text \<open>A pending entry of the nonce synchronisation: its nonce, its one transaction hash
  and the future it belongs to.\<close>

definition scenario_entry :: "int \<Rightarrow> string \<Rightarrow> string \<Rightarrow> PendingIgnitionTransaction" where
  "scenario_entry n h future =
     \<lparr> nonce = n, transactions = [h], executionStateId = future, networkInteractionId = 1 \<rparr>"

section \<open>Properties of the fee policy\<close>

lemmas io_defs =
  io_bind_def io_await_def io_return_def io_throw_def io_try_await_def assertIgnitionInvariant_def

lemma getNextTransactionFees_trace:
  "getNextTransactionFees client oi tr = (feesOutcome client oi, tr @ [GetNetworkFees])"
  by (auto simp: feesOutcome_def getNextTransactionFees_def io_defs Let_def
      split: sum.splits NetworkFees.splits)

lemma bump_not_lower: "(x::nat) \<le> x * 110 div 100"
  by simp

text \<open>
  Claim C3. When the node answers with recommended fees: an interaction without
  transactions gets exactly the recommended fees; with at least one transaction and
  EIP-1559 recommended fees the result is the field-wise maximum of the recommended fees
  and the last transaction's fees times 110 divided by 100 rounded down, a legacy gas price
  of the last transaction being used for both fields; with legacy fees on both sides the
  result is the maximum of the recommended gas price and the bumped previous gas price.
\<close>

theorem getNextTransactionFees_value:
  assumes "getNetworkFees client = Inr recommended"
  shows "(oi_transactions oi = [] \<longrightarrow>
            getNextTransactionFees client oi tr = (Inr recommended, tr @ [GetNetworkFees])) \<and>
         (oi_transactions oi \<noteq> [] \<and> recommended = Eip1559 rf rp \<longrightarrow>
            getNextTransactionFees client oi tr =
              (Inr (case tx_fees (last (oi_transactions oi)) of
                      Legacy pg \<Rightarrow> Eip1559 (max rf (pg * 110 div 100)) (max rp (pg * 110 div 100))
                    | Eip1559 pf pp \<Rightarrow> Eip1559 (max rf (pf * 110 div 100)) (max rp (pp * 110 div 100))),
               tr @ [GetNetworkFees])) \<and>
         (oi_transactions oi \<noteq> [] \<and> recommended = Legacy rg \<and>
          tx_fees (last (oi_transactions oi)) = Legacy pg \<longrightarrow>
            getNextTransactionFees client oi tr =
              (Inr (Legacy (max rg (pg * 110 div 100))), tr @ [GetNetworkFees]))"
  using assms
  by (auto simp: getNextTransactionFees_def io_defs Let_def last_conv_nth max_def
      split: sum.splits NetworkFees.splits)

theorem getNextTransactionFees_value_witness:
  "getNextTransactionFees (scenario_node 10 5 5 5 []) scenario_first_send [] =
     (Inr (Eip1559 100 2), [GetNetworkFees]) \<and>
   getNextTransactionFees (scenario_node 10 5 5 5 [] \<lparr> getNetworkFees := Inr (Eip1559 90 1) \<rparr>)
       scenario_resend [] =
     (Inr (Eip1559 110 2), [GetNetworkFees]) \<and>
   getNextTransactionFees (scenario_node 10 5 5 5 [] \<lparr> getNetworkFees := Inr (Legacy 7) \<rparr>)
       (scenario_resend \<lparr> oi_transactions := [\<lparr> tx_hash = ''0xaa'', tx_fees = Legacy 20 \<rparr>] \<rparr>) [] =
     (Inr (Legacy 22), [GetNetworkFees])"
  using
    getNextTransactionFees_value
      [of "scenario_node 10 5 5 5 []" "Eip1559 100 2" scenario_first_send "[]" 100 2 0 0]
    getNextTransactionFees_value
      [of "scenario_node 10 5 5 5 [] \<lparr> getNetworkFees := Inr (Eip1559 90 1) \<rparr>" "Eip1559 90 1"
          scenario_resend "[]" 90 1 0 0]
    getNextTransactionFees_value
      [of "scenario_node 10 5 5 5 [] \<lparr> getNetworkFees := Inr (Legacy 7) \<rparr>" "Legacy 7"
          "scenario_resend \<lparr> oi_transactions := [\<lparr> tx_hash = ''0xaa'', tx_fees = Legacy 20 \<rparr>] \<rparr>"
          "[]" 0 0 7 20]
  by (simp add: scenario_node_def scenario_first_send_def scenario_resend_def)

text \<open>
  Claim C8. For an interaction whose last transaction carries EIP-1559 fees, legacy fees
  recommended by the node make the fee policy raise: the invariant assertion fails with
  the message about the fee market, and no fee value is returned.
\<close>

theorem eip1559_downgrade_raises:
  assumes "oi_transactions oi \<noteq> []"
    and "tx_fees (last (oi_transactions oi)) = Eip1559 pf pp"
    and "getNetworkFees client = Inr (Legacy rg)"
  shows "getNextTransactionFees client oi tr =
           (Inl (ASSERTION_ERROR
              ''EIP-1559 transaction was already sent but the currently recommended fees are not EIP-1559''),
            tr @ [GetNetworkFees])"
  using assms
  by (auto simp: getNextTransactionFees_def io_defs Let_def last_conv_nth
      split: sum.splits NetworkFees.splits)

theorem eip1559_downgrade_raises_witness:
  "oi_transactions scenario_resend \<noteq> [] \<and>
   tx_fees (last (oi_transactions scenario_resend)) = Eip1559 100 2 \<and>
   getNextTransactionFees (scenario_node 10 5 5 5 [] \<lparr> getNetworkFees := Inr (Legacy 90) \<rparr>)
       scenario_resend [] =
     (Inl (ASSERTION_ERROR
        ''EIP-1559 transaction was already sent but the currently recommended fees are not EIP-1559''),
      [GetNetworkFees])"
  using eip1559_downgrade_raises
      [of scenario_resend 100 2 "scenario_node 10 5 5 5 [] \<lparr> getNetworkFees := Inr (Legacy 90) \<rparr>"
          90 "[]"]
  by (simp add: scenario_node_def scenario_first_send_def scenario_resend_def)

text \<open>
  Claim C9, as stated, fails: in the fee bump scenario of the specification the last
  priority fee is 2 and the next one is 2 again, below 1.10 times 2, because 220 divided
  by 100 is rounded down.
\<close>

theorem next_fees_below_110_percent:
  "getNextTransactionFees (scenario_node 10 5 5 5 [] \<lparr> getNetworkFees := Inr (Eip1559 90 1) \<rparr>)
       scenario_resend [] =
     (Inr (Eip1559 110 2), [GetNetworkFees]) \<and>
   oi_transactions scenario_resend \<noteq> [] \<and>
   \<not> fees_at_least_110_percent (Eip1559 110 2) (tx_fees (last (oi_transactions scenario_resend)))"
  by (simp add: getNextTransactionFees_def io_defs Let_def fees_at_least_110_percent_def
      scenario_node_def scenario_first_send_def scenario_resend_def)

lemma adjacent_fees_bumped_snoc:
  "adjacent_fees_bumped (txs @ [tx]) =
     (adjacent_fees_bumped txs \<and>
      (txs = [] \<or> fees_at_least_bumped (tx_fees tx) (tx_fees (last txs))))"
  by (induction txs rule: adjacent_fees_bumped.induct) auto

lemma bumped_not_lower: "fees_at_least_bumped a b \<Longrightarrow> fees_not_lower a b"
  using bump_not_lower
  by (auto simp: fees_at_least_bumped_def fees_not_lower_def
      split: NetworkFees.splits intro: order_trans)

text \<open>
  Claim C9, amended. For an interaction with at least one transaction, fees returned for
  the next transaction are field by field at least the last transaction's fees times 110
  divided by 100 rounded down (a legacy gas price of the last transaction counting for
  both EIP-1559 fields), and so never below the last transaction's fees. Consequently a
  transactions sequence whose adjacent pairs satisfy this bound still satisfies it after
  a transaction with the returned fees is appended.
\<close>

theorem next_fees_at_least_bumped:
  assumes "getNextTransactionFees client oi tr = (Inr new, tr')"
  shows "(oi_transactions oi \<noteq> [] \<longrightarrow>
            fees_at_least_bumped new (tx_fees (last (oi_transactions oi))) \<and>
            fees_not_lower new (tx_fees (last (oi_transactions oi)))) \<and>
         (adjacent_fees_bumped (oi_transactions oi) \<longrightarrow>
            adjacent_fees_bumped (oi_transactions oi @ [\<lparr> tx_hash = h, tx_fees = new \<rparr>]))"
proof -
  have bumped: "fees_at_least_bumped new (tx_fees (last (oi_transactions oi)))"
    if "oi_transactions oi \<noteq> []"
    using assms that
    by (auto simp: getNextTransactionFees_def io_defs Let_def last_conv_nth fees_at_least_bumped_def
        split: sum.splits NetworkFees.splits if_splits)
  then show ?thesis
    by (auto simp: adjacent_fees_bumped_snoc dest: bumped_not_lower)
qed

theorem next_fees_at_least_bumped_witness:
  "getNextTransactionFees (scenario_node 10 5 5 5 [] \<lparr> getNetworkFees := Inr (Eip1559 90 1) \<rparr>)
       scenario_resend [] =
     (Inr (Eip1559 110 2), [GetNetworkFees]) \<and>
   oi_transactions scenario_resend = [\<lparr> tx_hash = ''0xaa'', tx_fees = Eip1559 100 2 \<rparr>] \<and>
   fees_at_least_bumped (Eip1559 110 2) (Eip1559 100 2) \<and>
   fees_not_lower (Eip1559 110 2) (Eip1559 100 2) \<and>
   adjacent_fees_bumped
     [\<lparr> tx_hash = ''0xaa'', tx_fees = Eip1559 100 2 \<rparr>,
      \<lparr> tx_hash = ''0xbb'', tx_fees = Eip1559 110 2 \<rparr>]"
proof -
  have run: "getNextTransactionFees
               (scenario_node 10 5 5 5 [] \<lparr> getNetworkFees := Inr (Eip1559 90 1) \<rparr>)
               scenario_resend [] =
             (Inr (Eip1559 110 2), [GetNetworkFees])"
    by (simp add: getNextTransactionFees_def io_defs Let_def
        scenario_node_def scenario_first_send_def scenario_resend_def)
  have txs: "oi_transactions scenario_resend = [\<lparr> tx_hash = ''0xaa'', tx_fees = Eip1559 100 2 \<rparr>]"
    by (simp add: scenario_first_send_def scenario_resend_def)
  from next_fees_at_least_bumped [OF run, of "''0xbb''"] run txs show ?thesis
    by simp
qed

section \<open>Properties of the send pipeline\<close>

text \<open>
  Claim C4. Whenever the pipeline returns a sent outcome with a nonce, a hash and fees,
  the effects it performed end with the journal write of \<open>TRANSACTION_PREPARE_SEND\<close>
  for this future, this interaction's id and that nonce, which succeeded, immediately
  followed by the broadcast; nothing before them is a write; and the broadcast parameters
  carry the returned nonce and fees and were answered with the returned hash.
\<close>

theorem sent_outcome_journal_before_broadcast:
  assumes "sendTransactionForOnchainInteraction client sender oi getNextNonce decode recordToJournal
             futureId tr = (Inr (TRANSACTION_SENT n t), tr')"
  shows "\<exists>reads p.
           tr' = tr @ reads @
                   [RecordToJournal (TRANSACTION_PREPARE_SEND futureId (oi_id oi) n),
                    SendTransaction p] \<and>
           list_all (\<lambda>e. \<not> is_write e) reads \<and>
           recordToJournal (TRANSACTION_PREPARE_SEND futureId (oi_id oi) n) = Inr () \<and>
           sendTransaction client p = Inr (tx_hash t) \<and>
           p_nonce p = n \<and> p_fees p = Some (tx_fees t)"
  using assms
  by (auto simp: sendTransactionForOnchainInteraction_def getNextTransactionFees_trace io_defs Let_def
      split: option.splits sum.splits thrown.splits if_splits prod.splits)

theorem sent_outcome_journal_before_broadcast_witness:
  "sendTransactionForOnchainInteraction (scenario_node 10 5 5 5 []) ''0xA'' scenario_first_send
       (\<lambda>sender. Inr 5) (\<lambda>raw. Inr (None :: string option)) (\<lambda>message. Inr ())
       ''Module#Contract'' [] =
     (Inr (TRANSACTION_SENT 5 \<lparr> tx_hash = ''0xaa'', tx_fees = Eip1559 100 2 \<rparr>),
      [GetNextNonce ''0xA'', GetNetworkFees,
       EstimateGas \<lparr> p_to = Some ''0xC'', p_from = ''0xA'', p_data = ''0x'', p_value = 1000,
                     p_nonce = 5, p_fees = Some (Eip1559 100 2), p_gasLimit = None \<rparr>,
       Call \<lparr> p_to = Some ''0xC'', p_from = ''0xA'', p_data = ''0x'', p_value = 1000,
              p_nonce = 5, p_fees = Some (Eip1559 100 2), p_gasLimit = Some 21000 \<rparr> Pending,
       DecodeSimulationResult [],
       RecordToJournal (TRANSACTION_PREPARE_SEND ''Module#Contract'' 1 5),
       SendTransaction \<lparr> p_to = Some ''0xC'', p_from = ''0xA'', p_data = ''0x'', p_value = 1000,
                         p_nonce = 5, p_fees = Some (Eip1559 100 2), p_gasLimit = Some 21000 \<rparr>]) \<and>
   (\<exists>reads p.
      [GetNextNonce ''0xA'', GetNetworkFees,
       EstimateGas \<lparr> p_to = Some ''0xC'', p_from = ''0xA'', p_data = ''0x'', p_value = 1000,
                     p_nonce = 5, p_fees = Some (Eip1559 100 2), p_gasLimit = None \<rparr>,
       Call \<lparr> p_to = Some ''0xC'', p_from = ''0xA'', p_data = ''0x'', p_value = 1000,
              p_nonce = 5, p_fees = Some (Eip1559 100 2), p_gasLimit = Some 21000 \<rparr> Pending,
       DecodeSimulationResult [],
       RecordToJournal (TRANSACTION_PREPARE_SEND ''Module#Contract'' 1 5),
       SendTransaction \<lparr> p_to = Some ''0xC'', p_from = ''0xA'', p_data = ''0x'', p_value = 1000,
                         p_nonce = 5, p_fees = Some (Eip1559 100 2), p_gasLimit = Some 21000 \<rparr>] =
        reads @ [RecordToJournal (TRANSACTION_PREPARE_SEND ''Module#Contract'' 1 5),
                 SendTransaction p] \<and>
      list_all (\<lambda>e. \<not> is_write e) reads \<and>
      sendTransaction (scenario_node 10 5 5 5 []) p = Inr ''0xaa'' \<and>
      p_nonce p = 5 \<and> p_fees p = Some (Eip1559 100 2))"
proof -
  have run:
    "sendTransactionForOnchainInteraction (scenario_node 10 5 5 5 []) ''0xA'' scenario_first_send
       (\<lambda>sender. Inr 5) (\<lambda>raw. Inr (None :: string option)) (\<lambda>message. Inr ())
       ''Module#Contract'' [] =
     (Inr (TRANSACTION_SENT 5 \<lparr> tx_hash = ''0xaa'', tx_fees = Eip1559 100 2 \<rparr>),
      [GetNextNonce ''0xA'', GetNetworkFees,
       EstimateGas \<lparr> p_to = Some ''0xC'', p_from = ''0xA'', p_data = ''0x'', p_value = 1000,
                     p_nonce = 5, p_fees = Some (Eip1559 100 2), p_gasLimit = None \<rparr>,
       Call \<lparr> p_to = Some ''0xC'', p_from = ''0xA'', p_data = ''0x'', p_value = 1000,
              p_nonce = 5, p_fees = Some (Eip1559 100 2), p_gasLimit = Some 21000 \<rparr> Pending,
       DecodeSimulationResult [],
       RecordToJournal (TRANSACTION_PREPARE_SEND ''Module#Contract'' 1 5),
       SendTransaction \<lparr> p_to = Some ''0xC'', p_from = ''0xA'', p_data = ''0x'', p_value = 1000,
                         p_nonce = 5, p_fees = Some (Eip1559 100 2), p_gasLimit = Some 21000 \<rparr>])"
    by (simp add: sendTransactionForOnchainInteraction_def getNextTransactionFees_def io_defs
        Let_def scenario_node_def scenario_first_send_def)
  from sent_outcome_journal_before_broadcast [OF run] run show ?thesis
    by (simp add: scenario_first_send_def)
qed




text \<open>
  Claim C10. When the pipeline ends with a decoded simulation error as its outcome, from
  either simulation, or with one of the typed estimation errors, every effect it performed
  is a read: no journal record was written and \<open>sendTransaction\<close> was not invoked.
\<close>

theorem error_outcomes_write_nothing:
  assumes "sendTransactionForOnchainInteraction client sender oi getNextNonce decode recordToJournal
             futureId tr = (outcome, tr')"
    and "(\<exists>d. outcome = Inr (Decoded d)) \<or> (\<exists>e. outcome = Inl e \<and> is_estimation_error e)"
  shows "\<exists>reads. tr' = tr @ reads \<and> list_all (\<lambda>e. \<not> is_write e) reads"
  using assms
  by (auto simp: sendTransactionForOnchainInteraction_def getNextTransactionFees_trace io_defs Let_def
      split: option.splits sum.splits thrown.splits if_splits prod.splits)

theorem error_outcomes_write_nothing_witness:
  "sendTransactionForOnchainInteraction (scenario_node 10 5 5 5 []) ''0xA'' scenario_first_send
       (\<lambda>sender. Inr 5) (\<lambda>raw. Inr (Some ''reverted'')) (\<lambda>message. Inr ())
       ''Module#Contract'' [] =
     (Inr (Decoded ''reverted''),
      [GetNextNonce ''0xA'', GetNetworkFees,
       EstimateGas \<lparr> p_to = Some ''0xC'', p_from = ''0xA'', p_data = ''0x'', p_value = 1000,
                     p_nonce = 5, p_fees = Some (Eip1559 100 2), p_gasLimit = None \<rparr>,
       Call \<lparr> p_to = Some ''0xC'', p_from = ''0xA'', p_data = ''0x'', p_value = 1000,
              p_nonce = 5, p_fees = Some (Eip1559 100 2), p_gasLimit = Some 21000 \<rparr> Pending,
       DecodeSimulationResult []]) \<and>
   (\<exists>reads.
      [GetNextNonce ''0xA'', GetNetworkFees,
       EstimateGas \<lparr> p_to = Some ''0xC'', p_from = ''0xA'', p_data = ''0x'', p_value = 1000,
                     p_nonce = 5, p_fees = Some (Eip1559 100 2), p_gasLimit = None \<rparr>,
       Call \<lparr> p_to = Some ''0xC'', p_from = ''0xA'', p_data = ''0x'', p_value = 1000,
              p_nonce = 5, p_fees = Some (Eip1559 100 2), p_gasLimit = Some 21000 \<rparr> Pending,
       DecodeSimulationResult []] = reads \<and>
      list_all (\<lambda>e. \<not> is_write e) reads)"
proof -
  have run:
    "sendTransactionForOnchainInteraction (scenario_node 10 5 5 5 []) ''0xA'' scenario_first_send
       (\<lambda>sender. Inr 5) (\<lambda>raw. Inr (Some ''reverted'')) (\<lambda>message. Inr ())
       ''Module#Contract'' [] =
     (Inr (Decoded ''reverted''),
      [GetNextNonce ''0xA'', GetNetworkFees,
       EstimateGas \<lparr> p_to = Some ''0xC'', p_from = ''0xA'', p_data = ''0x'', p_value = 1000,
                     p_nonce = 5, p_fees = Some (Eip1559 100 2), p_gasLimit = None \<rparr>,
       Call \<lparr> p_to = Some ''0xC'', p_from = ''0xA'', p_data = ''0x'', p_value = 1000,
              p_nonce = 5, p_fees = Some (Eip1559 100 2), p_gasLimit = Some 21000 \<rparr> Pending,
       DecodeSimulationResult []])"
    by (simp add: sendTransactionForOnchainInteraction_def getNextTransactionFees_def io_defs
        Let_def scenario_node_def scenario_first_send_def)
  have "(\<exists>d. (Inr (Decoded ''reverted'') :: exn + string send_result) = Inr (Decoded d)) \<or>
        (\<exists>e. (Inr (Decoded ''reverted'') :: exn + string send_result) = Inl e \<and> is_estimation_error e)"
    by simp
  from error_outcomes_write_nothing [OF run this] run show ?thesis
    by simp
qed

section \<open>Properties of the nonce synchronisation\<close>

subsection \<open>Structure of a pass\<close>

lemma Promise_all_resolved:
  "(\<forall>x\<in>set xs. \<exists>v. f x = Inr v) \<Longrightarrow> Promise_all (map f xs) = Inr (map (\<lambda>x. projr (f x)) xs)"
  by (induction xs) auto

lemma Promise_all_unknown:
  "(\<forall>h\<in>set hs. f h = Inr None) \<Longrightarrow> Promise_all (map f hs) = Inr (map (\<lambda>_. None) hs)"
  by (induction hs) auto

text \<open>The entries of a sender are processed in order; the first exception ends the loop.\<close>

lemma processPendingTransactions_append:
  "processPendingTransactions c s rc safe pc lc (before @ rest) msgs0 =
     (case processPendingTransactions c s rc safe pc lc before msgs0 of
        Inl e \<Rightarrow> Inl e
      | Inr msgs \<Rightarrow> processPendingTransactions c s rc safe pc lc rest msgs)"
  by (induction before arbitrary: msgs0) (auto simp: Let_def split: sum.splits)

text \<open>Messages are only ever added at the end: what has been pushed stays in the result.\<close>

lemma processPendingTransactions_extends:
  "processPendingTransactions c s rc safe pc lc entries msgs = Inr out \<Longrightarrow> prefix msgs out"
proof (induction entries arbitrary: msgs)
  case Nil
  then show ?case by simp
next
  case (Cons t entries)
  then show ?case
    by (auto simp: Let_def split: sum.splits if_splits dest!: Cons.IH dest: append_prefixD)
qed

lemma pushed_message_kept:
  "processPendingTransactions c s rc safe pc lc entries (msgs @ [m]) = Inr out \<Longrightarrow> m \<in> set out"
  by (drule processPendingTransactions_extends) (auto simp: prefix_def)

lemma syncSender_extends:
  "syncSender c rc cb s entries msgs = Inr out \<Longrightarrow> prefix msgs out"
  by (auto simp: syncSender_def Let_def split: sum.splits option.splits if_splits
      dest: processPendingTransactions_extends)

lemma syncSenders_append:
  "syncSenders c rc cb (before @ rest) msgs0 =
     (case syncSenders c rc cb before msgs0 of
        Inl e \<Rightarrow> Inl e
      | Inr msgs \<Rightarrow> syncSenders c rc cb rest msgs)"
  by (induction before arbitrary: msgs0) (auto split: sum.splits)

lemma syncSenders_extends:
  "syncSenders c rc cb senders msgs = Inr out \<Longrightarrow> prefix msgs out"
proof (induction senders arbitrary: msgs)
  case Nil
  then show ?case by simp
next
  case (Cons a senders)
  obtain s entries where a: "a = (s, entries)" by (cases a)
  from Cons.prems a obtain mid where
    "syncSender c rc cb s entries msgs = Inr mid" "syncSenders c rc cb senders mid = Inr out"
    by (auto split: sum.splits)
  then have "prefix msgs mid" "prefix mid out"
    by (auto dest: syncSender_extends Cons.IH)
  then show ?case by (rule prefix_order.trans)
qed

lemma Math_max_Max: "xs \<noteq> [] \<Longrightarrow> Math_max xs = Some (Max (set xs))"
proof (induction xs)
  case Nil
  then show ?case by simp
next
  case (Cons x xs)
  then show ?case by (cases "xs = []") (auto simp: max.commute)
qed

subsection \<open>Scenarios of the specification\<close>

text \<open>Scenario 3: two pending interactions at nonces 5 and 6, all counts 5, both hashes
  unknown to the node: both are reported dropped, in ascending nonce order.\<close>

lemma scenario_dropped:
  "getNonceSyncMessages (scenario_node 10 5 5 5 [])
     [(''0xA'', [scenario_entry 5 ''0xaa'' ''Module#First'', scenario_entry 6 ''0xbb'' ''Module#Second''])] 5 =
   Inr [ONCHAIN_INTERACTION_DROPPED ''Module#First'' 1, ONCHAIN_INTERACTION_DROPPED ''Module#Second'' 1]"
  by (simp add: getNonceSyncMessages_def syncSender_def confirmedBlockNumber_def
      hasOnchainUnconfirmedPendingTransactions_def scenario_node_def scenario_entry_def)

text \<open>Scenario 6: the user's replacement at nonce 5 is still pending.\<close>

lemma scenario_user_pending_replacement:
  "getNonceSyncMessages (scenario_node 10 5 6 5 [])
     [(''0xA'', [scenario_entry 5 ''0xaa'' ''Module#First''])] 5 =
   Inl (WAITING_FOR_NONCE ''0xA'' 5 5)"
  by (simp add: getNonceSyncMessages_def syncSender_def confirmedBlockNumber_def
      hasOnchainUnconfirmedPendingTransactions_def scenario_node_def scenario_entry_def)

subsection \<open>Classification of one entry\<close>

text \<open>The inner loop at an entry it reaches, by the three ways the entry is classified.\<close>

lemma entry_replaced:
  assumes "processPendingTransactions c s rc safe pc lc before msgs0 = Inr msgs"
    and "\<forall>h\<in>set (transactions t). getTransaction c h = Inr None"
    and "lc > nonce t"
  shows "processPendingTransactions c s rc safe pc lc (before @ t # rest) msgs0 =
           (if (\<exists>sc. safe = Some sc \<and> sc \<ge> nonce t)
            then processPendingTransactions c s rc safe pc lc rest
                   (msgs @ [ONCHAIN_INTERACTION_REPLACED_BY_USER
                              (executionStateId t) (networkInteractionId t)])
            else Inl (WAITING_FOR_NONCE s (nonce t) rc))"
  using assms
  by (auto simp: processPendingTransactions_append Promise_all_unknown list_ex_iff Let_def
      split: option.splits)

lemma entry_live:
  assumes "processPendingTransactions c s rc safe pc lc before msgs0 = Inr msgs"
    and "\<forall>h\<in>set (transactions t). \<exists>r. getTransaction c h = Inr r"
    and "\<exists>h\<in>set (transactions t). \<exists>tx. getTransaction c h = Inr (Some tx)"
  shows "processPendingTransactions c s rc safe pc lc (before @ t # rest) msgs0 =
           processPendingTransactions c s rc safe pc lc rest msgs"
proof -
  have fetched: "Promise_all (map (getTransaction c) (transactions t)) =
                 Inr (map (\<lambda>x. projr (getTransaction c x)) (transactions t))"
    using assms(2) by (simp add: Promise_all_resolved)
  from assms(3) obtain h0 tx where "h0 \<in> set (transactions t)" "getTransaction c h0 = Inr (Some tx)"
    by blast
  then have "list_ex (\<lambda>tx. tx \<noteq> None) (map (\<lambda>x. projr (getTransaction c x)) (transactions t))"
    by (auto simp: list_ex_iff intro!: bexI[of _ h0])
  with fetched assms(1) show ?thesis
    by (simp add: processPendingTransactions_append)
qed

lemma entry_dropped:
  assumes "processPendingTransactions c s rc safe pc lc before msgs0 = Inr msgs"
    and "\<forall>h\<in>set (transactions t). getTransaction c h = Inr None"
    and "lc \<le> nonce t"
  shows "processPendingTransactions c s rc safe pc lc (before @ t # rest) msgs0 =
           (if pc > nonce t then Inl (WAITING_FOR_NONCE s (nonce t) rc)
            else processPendingTransactions c s rc safe pc lc rest
                   (msgs @ [ONCHAIN_INTERACTION_DROPPED
                              (executionStateId t) (networkInteractionId t)]))"
  using assms
  by (auto simp: processPendingTransactions_append Promise_all_unknown list_ex_iff Let_def)

text \<open>
  The pass at a sender with pending entries: the block number and the three counts are
  the node's answers, and the senders before it raised nothing.
\<close>

lemma getNonceSyncMessages_at_sender:
  assumes "getLatestBlock c = Inr bn"
    and "syncSenders c rc (confirmedBlockNumber bn rc) earlier [] = Inr msgs0"
    and "getTransactionCount c s Pending = Inr pc"
    and "getTransactionCount c s Latest = Inr lc"
    and "bn - rc + 1 \<ge> 0 \<longrightarrow> getTransactionCount c s (BlockNumber (bn - rc + 1)) = Inr sc"
    and "safe = (if bn - rc + 1 \<ge> 0 then Some sc else None)"
    and "entries \<noteq> []"
  shows "getNonceSyncMessages c (earlier @ (s, entries) # later) rc =
           (case processPendingTransactions c s rc safe pc lc entries msgs0 of
              Inl e \<Rightarrow> Inl e
            | Inr out \<Rightarrow>
                if Max (set (map nonce entries)) + 1 < pc \<and>
                   hasOnchainUnconfirmedPendingTransactions safe pc
                then Inl (WAITING_FOR_NONCE s (pc - 1) rc)
                else syncSenders c rc (confirmedBlockNumber bn rc) later out)"
  using assms
  by (auto simp: getNonceSyncMessages_def syncSenders_append syncSender_def confirmedBlockNumber_def
      Math_max_Max Let_def split: sum.splits)

lemma pushed_message_in_pass:
  assumes "(case processPendingTransactions c s rc safe pc lc rest (msgs @ [m]) of
              Inl e \<Rightarrow> Inl e
            | Inr mid \<Rightarrow> if b then Inl e' else syncSenders c rc cb later mid) = Inr out"
  shows "m \<in> set out"
proof -
  from assms obtain mid where
    mid: "processPendingTransactions c s rc safe pc lc rest (msgs @ [m]) = Inr mid"
    and out: "syncSenders c rc cb later mid = Inr out"
    by (auto split: sum.splits if_splits)
  from mid have "m \<in> set mid" by (rule pushed_message_kept)
  moreover from out have "prefix mid out" by (rule syncSenders_extends)
  ultimately show ?thesis by (auto simp: prefix_def)
qed

text \<open>
  Claim C1. Let the node report the block number and, for a sender, the pending count,
  the latest count and (when the safe block exists) the safe count; let the pass reach an
  entry of that sender, the senders and entries before it having raised nothing; let every
  hash of the entry be unknown to the node and the latest count exceed the entry's nonce.
  If the safe count is defined and at least the nonce, \<open>OnchainInteractionReplacedByUser\<close>
  with the entry's future id and network interaction id is pushed and the pass goes on
  with the remaining entries, the check of Case 4 and the remaining senders; otherwise the
  pass raises \<open>WAITING_FOR_NONCE\<close> with the sender, the nonce and the required
  confirmations. Whenever the pass returns an event list, the event is in it.
\<close>

theorem replaced_by_user_or_waiting:
  assumes "getLatestBlock c = Inr bn"
    and "syncSenders c rc (confirmedBlockNumber bn rc) earlier [] = Inr msgs0"
    and "getTransactionCount c s Pending = Inr pc"
    and "getTransactionCount c s Latest = Inr lc"
    and "bn - rc + 1 \<ge> 0 \<longrightarrow> getTransactionCount c s (BlockNumber (bn - rc + 1)) = Inr sc"
    and "safe = (if bn - rc + 1 \<ge> 0 then Some sc else None)"
    and "processPendingTransactions c s rc safe pc lc before msgs0 = Inr msgs"
    and "\<forall>h\<in>set (transactions t). getTransaction c h = Inr None"
    and "lc > nonce t"
  shows "getNonceSyncMessages c (earlier @ (s, before @ t # rest) # later) rc =
           (if (\<exists>sc'. safe = Some sc' \<and> sc' \<ge> nonce t)
            then (case processPendingTransactions c s rc safe pc lc rest
                         (msgs @ [ONCHAIN_INTERACTION_REPLACED_BY_USER
                                    (executionStateId t) (networkInteractionId t)]) of
                    Inl e \<Rightarrow> Inl e
                  | Inr out \<Rightarrow>
                      if Max (set (map nonce (before @ t # rest))) + 1 < pc \<and>
                         hasOnchainUnconfirmedPendingTransactions safe pc
                      then Inl (WAITING_FOR_NONCE s (pc - 1) rc)
                      else syncSenders c rc (confirmedBlockNumber bn rc) later out)
            else Inl (WAITING_FOR_NONCE s (nonce t) rc)) \<and>
         (\<forall>out. getNonceSyncMessages c (earlier @ (s, before @ t # rest) # later) rc = Inr out \<longrightarrow>
            ONCHAIN_INTERACTION_REPLACED_BY_USER (executionStateId t) (networkInteractionId t)
              \<in> set out)"
proof -
  have pass: "getNonceSyncMessages c (earlier @ (s, before @ t # rest) # later) rc =
           (if (\<exists>sc'. safe = Some sc' \<and> sc' \<ge> nonce t)
            then (case processPendingTransactions c s rc safe pc lc rest
                         (msgs @ [ONCHAIN_INTERACTION_REPLACED_BY_USER
                                    (executionStateId t) (networkInteractionId t)]) of
                    Inl e \<Rightarrow> Inl e
                  | Inr out \<Rightarrow>
                      if Max (set (map nonce (before @ t # rest))) + 1 < pc \<and>
                         hasOnchainUnconfirmedPendingTransactions safe pc
                      then Inl (WAITING_FOR_NONCE s (pc - 1) rc)
                      else syncSenders c rc (confirmedBlockNumber bn rc) later out)
            else Inl (WAITING_FOR_NONCE s (nonce t) rc))"
    by (auto simp: getNonceSyncMessages_at_sender [OF assms(1-6)] entry_replaced [OF assms(7-9)])
  moreover have "ONCHAIN_INTERACTION_REPLACED_BY_USER (executionStateId t) (networkInteractionId t)
                   \<in> set out"
    if "getNonceSyncMessages c (earlier @ (s, before @ t # rest) # later) rc = Inr out" for out
    using that unfolding pass
    by (auto split: if_splits dest: pushed_message_in_pass)
  ultimately show ?thesis by blast
qed

theorem replaced_by_user_or_waiting_witness:
  "getNonceSyncMessages (scenario_node 10 6 6 6 [''0x99''])
     [(''0xA'', [scenario_entry 4 ''0x99'' ''Module#Zeroth'', scenario_entry 5 ''0xaa'' ''Module#First''])] 5 =
   Inr [ONCHAIN_INTERACTION_REPLACED_BY_USER ''Module#First'' 1] \<and>
   getNonceSyncMessages (scenario_node 10 4 6 6 [''0x99''])
     [(''0xA'', [scenario_entry 4 ''0x99'' ''Module#Zeroth'', scenario_entry 5 ''0xaa'' ''Module#First''])] 5 =
   Inl (WAITING_FOR_NONCE ''0xA'' 5 5)"
  using
    replaced_by_user_or_waiting
      [where c = "scenario_node 10 6 6 6 [''0x99'']" and bn = 10 and rc = 5 and earlier = "[]"
         and ?msgs0.0 = "[]" and s = "''0xA''" and pc = 6 and lc = 6 and sc = 6 and safe = "Some 6"
         and before = "[scenario_entry 4 ''0x99'' ''Module#Zeroth'']" and msgs = "[]"
         and t = "scenario_entry 5 ''0xaa'' ''Module#First''" and rest = "[]" and later = "[]"]
    replaced_by_user_or_waiting
      [where c = "scenario_node 10 4 6 6 [''0x99'']" and bn = 10 and rc = 5 and earlier = "[]"
         and ?msgs0.0 = "[]" and s = "''0xA''" and pc = 6 and lc = 6 and sc = 4 and safe = "Some 4"
         and before = "[scenario_entry 4 ''0x99'' ''Module#Zeroth'']" and msgs = "[]"
         and t = "scenario_entry 5 ''0xaa'' ''Module#First''" and rest = "[]" and later = "[]"]
  by (simp add: scenario_node_def scenario_entry_def confirmedBlockNumber_def
      hasOnchainUnconfirmedPendingTransactions_def)

text \<open>
  Claim C2. Let the node report the block number and the counts of a sender as before and
  let the pass reach an entry of that sender. If every lookup of its hashes resolves and
  at least one hash is still known to the node, the entry is skipped: the pass goes on
  with the remaining entries, the check of Case 4 and the remaining senders, with the
  messages unchanged. If every hash is unknown and the latest count is at most the nonce,
  the pass raises \<open>WAITING_FOR_NONCE\<close> with the sender, the nonce and the required
  confirmations when the pending count exceeds the nonce, and otherwise pushes
  \<open>OnchainInteractionDropped\<close> with the entry's future id and network interaction id and
  goes on; the event is then in every event list the pass returns.
\<close>

theorem live_skipped_else_waiting_or_dropped:
  assumes "getLatestBlock c = Inr bn"
    and "syncSenders c rc (confirmedBlockNumber bn rc) earlier [] = Inr msgs0"
    and "getTransactionCount c s Pending = Inr pc"
    and "getTransactionCount c s Latest = Inr lc"
    and "bn - rc + 1 \<ge> 0 \<longrightarrow> getTransactionCount c s (BlockNumber (bn - rc + 1)) = Inr sc"
    and "safe = (if bn - rc + 1 \<ge> 0 then Some sc else None)"
    and "processPendingTransactions c s rc safe pc lc before msgs0 = Inr msgs"
  shows "((\<forall>h\<in>set (transactions t). \<exists>r. getTransaction c h = Inr r) \<and>
          (\<exists>h\<in>set (transactions t). \<exists>tx. getTransaction c h = Inr (Some tx)) \<longrightarrow>
            getNonceSyncMessages c (earlier @ (s, before @ t # rest) # later) rc =
              (case processPendingTransactions c s rc safe pc lc rest msgs of
                 Inl e \<Rightarrow> Inl e
               | Inr out \<Rightarrow>
                   if Max (set (map nonce (before @ t # rest))) + 1 < pc \<and>
                      hasOnchainUnconfirmedPendingTransactions safe pc
                   then Inl (WAITING_FOR_NONCE s (pc - 1) rc)
                   else syncSenders c rc (confirmedBlockNumber bn rc) later out)) \<and>
         ((\<forall>h\<in>set (transactions t). getTransaction c h = Inr None) \<and> lc \<le> nonce t \<longrightarrow>
            getNonceSyncMessages c (earlier @ (s, before @ t # rest) # later) rc =
              (if pc > nonce t then Inl (WAITING_FOR_NONCE s (nonce t) rc)
               else (case processPendingTransactions c s rc safe pc lc rest
                            (msgs @ [ONCHAIN_INTERACTION_DROPPED
                                       (executionStateId t) (networkInteractionId t)]) of
                       Inl e \<Rightarrow> Inl e
                     | Inr out \<Rightarrow>
                         if Max (set (map nonce (before @ t # rest))) + 1 < pc \<and>
                            hasOnchainUnconfirmedPendingTransactions safe pc
                         then Inl (WAITING_FOR_NONCE s (pc - 1) rc)
                         else syncSenders c rc (confirmedBlockNumber bn rc) later out)) \<and>
            (\<forall>out. getNonceSyncMessages c (earlier @ (s, before @ t # rest) # later) rc = Inr out \<longrightarrow>
               ONCHAIN_INTERACTION_DROPPED (executionStateId t) (networkInteractionId t)
                 \<in> set out))"
proof -
  note at_sender = getNonceSyncMessages_at_sender [OF assms(1-6), of "before @ t # rest" later]
  have live: "getNonceSyncMessages c (earlier @ (s, before @ t # rest) # later) rc =
              (case processPendingTransactions c s rc safe pc lc rest msgs of
                 Inl e \<Rightarrow> Inl e
               | Inr out \<Rightarrow>
                   if Max (set (map nonce (before @ t # rest))) + 1 < pc \<and>
                      hasOnchainUnconfirmedPendingTransactions safe pc
                   then Inl (WAITING_FOR_NONCE s (pc - 1) rc)
                   else syncSenders c rc (confirmedBlockNumber bn rc) later out)"
    if "\<forall>h\<in>set (transactions t). \<exists>r. getTransaction c h = Inr r"
      and "\<exists>h\<in>set (transactions t). \<exists>tx. getTransaction c h = Inr (Some tx)"
    using at_sender by (simp only: entry_live [OF assms(7) that]) simp
  have dropped: "getNonceSyncMessages c (earlier @ (s, before @ t # rest) # later) rc =
              (if pc > nonce t then Inl (WAITING_FOR_NONCE s (nonce t) rc)
               else (case processPendingTransactions c s rc safe pc lc rest
                            (msgs @ [ONCHAIN_INTERACTION_DROPPED
                                       (executionStateId t) (networkInteractionId t)]) of
                       Inl e \<Rightarrow> Inl e
                     | Inr out \<Rightarrow>
                         if Max (set (map nonce (before @ t # rest))) + 1 < pc \<and>
                            hasOnchainUnconfirmedPendingTransactions safe pc
                         then Inl (WAITING_FOR_NONCE s (pc - 1) rc)
                         else syncSenders c rc (confirmedBlockNumber bn rc) later out))"
    if "\<forall>h\<in>set (transactions t). getTransaction c h = Inr None" and "lc \<le> nonce t"
    using at_sender by (simp only: entry_dropped [OF assms(7) that] split: if_splits) simp
  have kept: "ONCHAIN_INTERACTION_DROPPED (executionStateId t) (networkInteractionId t) \<in> set out"
    if "\<forall>h\<in>set (transactions t). getTransaction c h = Inr None" and "lc \<le> nonce t"
      and "getNonceSyncMessages c (earlier @ (s, before @ t # rest) # later) rc = Inr out" for out
    using that(3) unfolding dropped [OF that(1,2)]
    by (auto split: if_splits dest: pushed_message_in_pass)
  from live dropped kept show ?thesis by blast
qed

theorem live_skipped_else_waiting_or_dropped_witness:
  "getNonceSyncMessages (scenario_node 10 5 5 5 [''0xaa''])
     [(''0xA'', [scenario_entry 5 ''0xaa'' ''Module#First''])] 5 = Inr [] \<and>
   getNonceSyncMessages (scenario_node 10 5 6 5 [])
     [(''0xA'', [scenario_entry 5 ''0xaa'' ''Module#First''])] 5 = Inl (WAITING_FOR_NONCE ''0xA'' 5 5) \<and>
   getNonceSyncMessages (scenario_node 10 5 5 5 [])
     [(''0xA'', [scenario_entry 5 ''0xaa'' ''Module#First''])] 5 =
   Inr [ONCHAIN_INTERACTION_DROPPED ''Module#First'' 1]"
  using
    live_skipped_else_waiting_or_dropped
      [where c = "scenario_node 10 5 5 5 [''0xaa'']" and bn = 10 and rc = 5 and earlier = "[]"
         and ?msgs0.0 = "[]" and s = "''0xA''" and pc = 5 and lc = 5 and sc = 5 and safe = "Some 5"
         and before = "[]" and msgs = "[]"
         and t = "scenario_entry 5 ''0xaa'' ''Module#First''" and rest = "[]" and later = "[]"]
    live_skipped_else_waiting_or_dropped
      [where c = "scenario_node 10 5 6 5 []" and bn = 10 and rc = 5 and earlier = "[]"
         and ?msgs0.0 = "[]" and s = "''0xA''" and pc = 6 and lc = 5 and sc = 5 and safe = "Some 5"
         and before = "[]" and msgs = "[]"
         and t = "scenario_entry 5 ''0xaa'' ''Module#First''" and rest = "[]" and later = "[]"]
    live_skipped_else_waiting_or_dropped
      [where c = "scenario_node 10 5 5 5 []" and bn = 10 and rc = 5 and earlier = "[]"
         and ?msgs0.0 = "[]" and s = "''0xA''" and pc = 5 and lc = 5 and sc = 5 and safe = "Some 5"
         and before = "[]" and msgs = "[]"
         and t = "scenario_entry 5 ''0xaa'' ''Module#First''" and rest = "[]" and later = "[]"]
  by (simp add: scenario_node_def scenario_entry_def confirmedBlockNumber_def
      hasOnchainUnconfirmedPendingTransactions_def)

subsection \<open>Checks per sender\<close>



text \<open>
  Claim C7. For a sender with at least one pending entry whose count queries resolve and
  whose entries have all been processed without an exception: if the highest nonce of the
  entries plus one is below the pending count, the iteration raises \<open>WAITING_FOR_NONCE\<close>
  with the sender, the pending count minus one and the required confirmations when there
  are unconfirmed transactions, and otherwise ends without an exception, with the messages
  of the entries.
\<close>

theorem user_nonces_above_range:
  assumes "getTransactionCount c s Pending = Inr pc"
    and "getTransactionCount c s Latest = Inr lc"
    and "bn - rc + 1 \<ge> 0 \<longrightarrow> getTransactionCount c s (BlockNumber (bn - rc + 1)) = Inr sc"
    and "safe = (if bn - rc + 1 \<ge> 0 then Some sc else None)"
    and "entries \<noteq> []"
    and "processPendingTransactions c s rc safe pc lc entries msgs = Inr msgs'"
    and "Max (set (map nonce entries)) + 1 < pc"
  shows "syncSender c rc (confirmedBlockNumber bn rc) s entries msgs =
           (if hasOnchainUnconfirmedPendingTransactions safe pc
            then Inl (WAITING_FOR_NONCE s (pc - 1) rc) else Inr msgs')"
  using assms
  by (auto simp: syncSender_def confirmedBlockNumber_def Math_max_Max Let_def)

theorem user_nonces_above_range_witness:
  "syncSender (scenario_node 10 7 8 8 [''0xaa'']) 5 (confirmedBlockNumber 10 5) ''0xA''
     [scenario_entry 5 ''0xaa'' ''Module#First''] [] = Inl (WAITING_FOR_NONCE ''0xA'' 7 5) \<and>
   syncSender (scenario_node 10 8 8 8 [''0xaa'']) 5 (confirmedBlockNumber 10 5) ''0xA''
     [scenario_entry 5 ''0xaa'' ''Module#First''] [] = Inr []"
  using
    user_nonces_above_range
      [of "scenario_node 10 7 8 8 [''0xaa'']" "''0xA''" 8 8 10 5 7 "Some 7"
          "[scenario_entry 5 ''0xaa'' ''Module#First'']" "[]" "[]"]
    user_nonces_above_range
      [of "scenario_node 10 8 8 8 [''0xaa'']" "''0xA''" 8 8 10 5 8 "Some 8"
          "[scenario_entry 5 ''0xaa'' ''Module#First'']" "[]" "[]"]
  by (simp add: scenario_node_def scenario_entry_def hasOnchainUnconfirmedPendingTransactions_def)

end
